theory Spec2Isabelle
  imports Main
begin

section \<open>JavaScript values\<close>

text \<open>
  The request executor of \<^verbatim>\<open>src/api-client.ts\<close> takes its body and its query
  parameters as \<^verbatim>\<open>any\<close> and tests them with \<^verbatim>\<open>data && { data }\<close>, so the
  model needs the values of JavaScript and their truthiness. Numbers are the
  integer-valued ones (ids, status codes, a timeout in milliseconds) and \<open>NaN\<close>;
  an object is the list of its own properties.
\<close>

datatype js_value =
    Undefined
  | Null
  | Bool bool
  | Num int
  | NaN
  | Str string
  | Arr "js_value list"
  | Obj "(string \<times> js_value) list"

text \<open>ToBoolean: the falsy values are undefined, null, false, 0, NaN and the empty string.\<close>

fun truthy :: "js_value \<Rightarrow> bool" where
  "truthy Undefined = False"
| "truthy Null = False"
| "truthy (Bool b) = b"
| "truthy (Num n) = (n \<noteq> 0)"
| "truthy NaN = False"
| "truthy (Str s) = (s \<noteq> [])"
| "truthy (Arr xs) = True"
| "truthy (Obj fs) = True"

text \<open>Property access \<^verbatim>\<open>o.k\<close> on an object: a property that is not there reads as undefined.\<close>

definition js_get :: "(string \<times> js_value) list \<Rightarrow> string \<Rightarrow> js_value" where
  "js_get fs k = (case map_of fs k of None \<Rightarrow> Undefined | Some v \<Rightarrow> v)"

text \<open>
  A number inside a template literal, \<^verbatim>\<open>`${id}`\<close>. The numbers of the program are
  doubles. For a safe integer, one of magnitude at most \<open>2\<^sup>5\<^sup>3 - 1\<close>
  (\<^verbatim>\<open>Number.isSafeInteger\<close>), JavaScript prints the decimal digits, with a minus sign
  when it is negative, and \<open>js_number_to_string\<close> is that text. Beyond that range
  JavaScript prints the shortest digits that read back as the same double, and an
  exponent from \<open>10\<^sup>2\<^sup>1\<close> on; \<open>js_number_to_string\<close> is not that text there. Where
  a theorem below states the digits of an id in a URL, or of the timeout or the status
  in a message, it states them for safe integers; a status code of HTTP has three digits.
\<close>

definition safe_integer :: "int \<Rightarrow> bool" where
  "safe_integer i = (- 9007199254740991 \<le> i \<and> i \<le> 9007199254740991)"

definition digit_char :: "nat \<Rightarrow> char" where
  "digit_char d = ''0123456789'' ! d"

fun nat_digits :: "nat \<Rightarrow> string" where
  "nat_digits n = (if n < 10 then [digit_char n] else nat_digits (n div 10) @ [digit_char (n mod 10)])"

declare nat_digits.simps [simp del]

definition js_number_to_string :: "int \<Rightarrow> string" where
  "js_number_to_string i = (if i < 0 then CHR ''-'' # nat_digits (nat (- i)) else nat_digits (nat i))"

section \<open>The transport: axios\<close>

datatype http_method = GET | POST | PUT | PATCH | DELETE

text \<open>
  The configuration object handed to \<^verbatim>\<open>axios(config)\<close>. The fields \<open>data\<close> and
  \<open>params\<close> are there or not: \<open>None\<close> is a configuration object without the field.
\<close>

record AxiosRequestConfig =
  cfg_method :: http_method
  cfg_url :: string
  cfg_timeout :: int
  cfg_data :: "js_value option"
  cfg_params :: "js_value option"

text \<open>What axios resolves with. The executor reads three of its fields.\<close>

record AxiosResponse =
  resp_data :: js_value
  resp_status :: int
  resp_statusText :: string
  resp_headers :: "(string \<times> string) list"

text \<open>
  What axios rejects with: an Error object with a name and a message, a \<open>code\<close>
  when axios classified the failure and a \<open>response\<close> when the server answered.
\<close>

record AxiosError =
  err_name :: string
  err_message :: string
  err_code :: "string option"
  err_response :: "AxiosResponse option"

text \<open>\<^verbatim>\<open>`${error}`\<close> calls Error.prototype.toString.\<close>

definition error_to_string :: "AxiosError \<Rightarrow> string" where
  "error_to_string e =
     (if err_name e = [] then err_message e
      else if err_message e = [] then err_name e
      else err_name e @ '': '' @ err_message e)"

text \<open>
  The remote service is outside the program. One call of \<^verbatim>\<open>axios(config)\<close> is a
  function from the configuration to a rejection (\<open>Inl\<close>) or a response (\<open>Inr\<close>);
  a later call may meet another such function.
\<close>

type_synonym transport = "AxiosRequestConfig \<Rightarrow> AxiosError + AxiosResponse"

section \<open>The client\<close>

record JsonPlaceholderApiClient =
  baseUrl :: string
  timeout :: int

text \<open>The constructor: an argument left out takes its default.\<close>

definition new_client :: "string option \<Rightarrow> int option \<Rightarrow> JsonPlaceholderApiClient" where
  "new_client b t =
     \<lparr>baseUrl = (case b of None \<Rightarrow> ''https://jsonplaceholder.typicode.com'' | Some u \<Rightarrow> u),
      timeout = (case t of None \<Rightarrow> 10000 | Some ms \<Rightarrow> ms)\<rparr>"

text \<open>The envelope of \<^verbatim>\<open>src/types/index.ts\<close>.\<close>

record ApiResponse =
  data :: js_value
  status :: int
  statusText :: string

text \<open>Every throw of the client is \<^verbatim>\<open>new Error(message)\<close>.\<close>

datatype js_error = Error string

text \<open>
  One call of a method: the value the promise settles with (\<open>Inl\<close> when it rejects),
  the configurations passed to axios, in order, and the client object after the call.
\<close>

record invocation =
  outcome :: "js_error + ApiResponse"
  issued :: "AxiosRequestConfig list"
  this_after :: JsonPlaceholderApiClient

text \<open>The catch block of \<open>makeRequest\<close>.\<close>

definition catch_error :: "JsonPlaceholderApiClient \<Rightarrow> AxiosError \<Rightarrow> js_error" where
  "catch_error this error =
     (case err_response error of
        Some response \<Rightarrow>
          Error (''API request failed: '' @ err_message error @ '' - Status: ''
                 @ js_number_to_string (resp_status response))
      | None \<Rightarrow>
          if err_code error = Some ''ECONNABORTED''
          then Error (''Request timed out after '' @ js_number_to_string (timeout this) @ ''ms'')
          else Error (''Unexpected error: '' @ error_to_string error))"

text \<open>The configuration object built in the try block.\<close>

definition request_config ::
  "JsonPlaceholderApiClient \<Rightarrow> http_method \<Rightarrow> string \<Rightarrow> js_value \<Rightarrow> js_value \<Rightarrow> AxiosRequestConfig" where
  "request_config this m endpoint d p =
     \<lparr>cfg_method = m,
      cfg_url = baseUrl this @ endpoint,
      cfg_timeout = timeout this,
      cfg_data = (if truthy d then Some d else None),
      cfg_params = (if truthy p then Some p else None)\<rparr>"

definition makeRequest ::
  "JsonPlaceholderApiClient \<Rightarrow> transport \<Rightarrow> http_method \<Rightarrow> string \<Rightarrow> js_value \<Rightarrow> js_value
   \<Rightarrow> invocation" where
  "makeRequest this axios m endpoint d p =
     (let config = request_config this m endpoint d p in
      case axios config of
        Inr response \<Rightarrow>
          \<lparr>outcome = Inr \<lparr>data = resp_data response,
                           status = resp_status response,
                           statusText = resp_statusText response\<rparr>,
           issued = [config], this_after = this\<rparr>
      | Inl error \<Rightarrow>
          \<lparr>outcome = Inl (catch_error this error), issued = [config], this_after = this\<rparr>)"

subsection \<open>Posts\<close>

definition getPosts :: "JsonPlaceholderApiClient \<Rightarrow> transport \<Rightarrow> invocation" where
  "getPosts this axios = makeRequest this axios GET ''/posts'' Undefined Undefined"

definition getPost :: "JsonPlaceholderApiClient \<Rightarrow> transport \<Rightarrow> int \<Rightarrow> invocation" where
  "getPost this axios i =
     (if i \<le> 0
      then \<lparr>outcome = Inl (Error ''Post ID must be positive''), issued = [], this_after = this\<rparr>
      else makeRequest this axios GET (''/posts/'' @ js_number_to_string i) Undefined Undefined)"

definition getPostComments :: "JsonPlaceholderApiClient \<Rightarrow> transport \<Rightarrow> int \<Rightarrow> invocation" where
  "getPostComments this axios postId =
     makeRequest this axios GET (''/posts/'' @ js_number_to_string postId @ ''/comments'')
       Undefined Undefined"

text \<open>\<open>postData\<close> is an object, given by its properties.\<close>

definition createPost ::
  "JsonPlaceholderApiClient \<Rightarrow> transport \<Rightarrow> (string \<times> js_value) list \<Rightarrow> invocation" where
  "createPost this axios postData =
     (if \<not> truthy (js_get postData ''title'') \<or> \<not> truthy (js_get postData ''body'')
      then \<lparr>outcome = Inl (Error ''Title and body are required''), issued = [], this_after = this\<rparr>
      else makeRequest this axios POST ''/posts'' (Obj postData) Undefined)"

definition updatePost ::
  "JsonPlaceholderApiClient \<Rightarrow> transport \<Rightarrow> int \<Rightarrow> js_value \<Rightarrow> invocation" where
  "updatePost this axios i postData =
     makeRequest this axios PUT (''/posts/'' @ js_number_to_string i) postData Undefined"

definition patchPost ::
  "JsonPlaceholderApiClient \<Rightarrow> transport \<Rightarrow> int \<Rightarrow> js_value \<Rightarrow> invocation" where
  "patchPost this axios i postData =
     makeRequest this axios PATCH (''/posts/'' @ js_number_to_string i) postData Undefined"

definition deletePost :: "JsonPlaceholderApiClient \<Rightarrow> transport \<Rightarrow> int \<Rightarrow> invocation" where
  "deletePost this axios i =
     makeRequest this axios DELETE (''/posts/'' @ js_number_to_string i) Undefined Undefined"

subsection \<open>Comments\<close>

definition getComments :: "JsonPlaceholderApiClient \<Rightarrow> transport \<Rightarrow> js_value \<Rightarrow> invocation" where
  "getComments this axios params = makeRequest this axios GET ''/comments'' Undefined params"

definition getComment :: "JsonPlaceholderApiClient \<Rightarrow> transport \<Rightarrow> int \<Rightarrow> invocation" where
  "getComment this axios i =
     makeRequest this axios GET (''/comments/'' @ js_number_to_string i) Undefined Undefined"

subsection \<open>Albums\<close>

definition getAlbums :: "JsonPlaceholderApiClient \<Rightarrow> transport \<Rightarrow> invocation" where
  "getAlbums this axios = makeRequest this axios GET ''/albums'' Undefined Undefined"

definition getAlbum :: "JsonPlaceholderApiClient \<Rightarrow> transport \<Rightarrow> int \<Rightarrow> invocation" where
  "getAlbum this axios i =
     makeRequest this axios GET (''/albums/'' @ js_number_to_string i) Undefined Undefined"

definition getAlbumPhotos :: "JsonPlaceholderApiClient \<Rightarrow> transport \<Rightarrow> int \<Rightarrow> invocation" where
  "getAlbumPhotos this axios albumId =
     makeRequest this axios GET (''/albums/'' @ js_number_to_string albumId @ ''/photos'')
       Undefined Undefined"

subsection \<open>Photos\<close>

definition getPhotos :: "JsonPlaceholderApiClient \<Rightarrow> transport \<Rightarrow> js_value \<Rightarrow> invocation" where
  "getPhotos this axios params = makeRequest this axios GET ''/photos'' Undefined params"

definition getPhoto :: "JsonPlaceholderApiClient \<Rightarrow> transport \<Rightarrow> int \<Rightarrow> invocation" where
  "getPhoto this axios i =
     makeRequest this axios GET (''/photos/'' @ js_number_to_string i) Undefined Undefined"

subsection \<open>Todos\<close>

definition getTodos :: "JsonPlaceholderApiClient \<Rightarrow> transport \<Rightarrow> js_value \<Rightarrow> invocation" where
  "getTodos this axios params = makeRequest this axios GET ''/todos'' Undefined params"

definition getTodo :: "JsonPlaceholderApiClient \<Rightarrow> transport \<Rightarrow> int \<Rightarrow> invocation" where
  "getTodo this axios i =
     makeRequest this axios GET (''/todos/'' @ js_number_to_string i) Undefined Undefined"

subsection \<open>Users\<close>

definition getUsers :: "JsonPlaceholderApiClient \<Rightarrow> transport \<Rightarrow> invocation" where
  "getUsers this axios = makeRequest this axios GET ''/users'' Undefined Undefined"

definition getUser :: "JsonPlaceholderApiClient \<Rightarrow> transport \<Rightarrow> int \<Rightarrow> invocation" where
  "getUser this axios i =
     makeRequest this axios GET (''/users/'' @ js_number_to_string i) Undefined Undefined"

definition getUserPosts :: "JsonPlaceholderApiClient \<Rightarrow> transport \<Rightarrow> int \<Rightarrow> invocation" where
  "getUserPosts this axios userId =
     makeRequest this axios GET (''/users/'' @ js_number_to_string userId @ ''/posts'')
       Undefined Undefined"

definition getUserTodos :: "JsonPlaceholderApiClient \<Rightarrow> transport \<Rightarrow> int \<Rightarrow> invocation" where
  "getUserTodos this axios userId =
     makeRequest this axios GET (''/users/'' @ js_number_to_string userId @ ''/todos'')
       Undefined Undefined"

definition getUserAlbums :: "JsonPlaceholderApiClient \<Rightarrow> transport \<Rightarrow> int \<Rightarrow> invocation" where
  "getUserAlbums this axios userId =
     makeRequest this axios GET (''/users/'' @ js_number_to_string userId @ ''/albums'')
       Undefined Undefined"

section \<open>Calls of the client surface\<close>

text \<open>
  One constructor for each public method, with the method's arguments. An optional
  \<open>params\<close> argument that was left out is \<open>Undefined\<close>.
\<close>

datatype call =
    GetPosts
  | GetPost int
  | GetPostComments int
  | CreatePost "(string \<times> js_value) list"
  | UpdatePost int js_value
  | PatchPost int js_value
  | DeletePost int
  | GetComments js_value
  | GetComment int
  | GetAlbums
  | GetAlbum int
  | GetAlbumPhotos int
  | GetPhotos js_value
  | GetPhoto int
  | GetTodos js_value
  | GetTodo int
  | GetUsers
  | GetUser int
  | GetUserPosts int
  | GetUserTodos int
  | GetUserAlbums int

fun invoke :: "JsonPlaceholderApiClient \<Rightarrow> transport \<Rightarrow> call \<Rightarrow> invocation" where
  "invoke this axios GetPosts = getPosts this axios"
| "invoke this axios (GetPost i) = getPost this axios i"
| "invoke this axios (GetPostComments i) = getPostComments this axios i"
| "invoke this axios (CreatePost pd) = createPost this axios pd"
| "invoke this axios (UpdatePost i pd) = updatePost this axios i pd"
| "invoke this axios (PatchPost i pd) = patchPost this axios i pd"
| "invoke this axios (DeletePost i) = deletePost this axios i"
| "invoke this axios (GetComments p) = getComments this axios p"
| "invoke this axios (GetComment i) = getComment this axios i"
| "invoke this axios GetAlbums = getAlbums this axios"
| "invoke this axios (GetAlbum i) = getAlbum this axios i"
| "invoke this axios (GetAlbumPhotos i) = getAlbumPhotos this axios i"
| "invoke this axios (GetPhotos p) = getPhotos this axios p"
| "invoke this axios (GetPhoto i) = getPhoto this axios i"
| "invoke this axios (GetTodos p) = getTodos this axios p"
| "invoke this axios (GetTodo i) = getTodo this axios i"
| "invoke this axios GetUsers = getUsers this axios"
| "invoke this axios (GetUser i) = getUser this axios i"
| "invoke this axios (GetUserPosts i) = getUserPosts this axios i"
| "invoke this axios (GetUserTodos i) = getUserTodos this axios i"
| "invoke this axios (GetUserAlbums i) = getUserAlbums this axios i"

text \<open>The id handed to a method, when it takes one, is a safe integer.\<close>

fun safe_id :: "call \<Rightarrow> bool" where
  "safe_id (GetPost i) = safe_integer i"
| "safe_id (GetPostComments i) = safe_integer i"
| "safe_id (UpdatePost i pd) = safe_integer i"
| "safe_id (PatchPost i pd) = safe_integer i"
| "safe_id (DeletePost i) = safe_integer i"
| "safe_id (GetComment i) = safe_integer i"
| "safe_id (GetAlbum i) = safe_integer i"
| "safe_id (GetAlbumPhotos i) = safe_integer i"
| "safe_id (GetPhoto i) = safe_integer i"
| "safe_id (GetTodo i) = safe_integer i"
| "safe_id (GetUser i) = safe_integer i"
| "safe_id (GetUserPosts i) = safe_integer i"
| "safe_id (GetUserTodos i) = safe_integer i"
| "safe_id (GetUserAlbums i) = safe_integer i"
| "safe_id k = True"

text \<open>
  A sequence of calls on one client object, each meeting its own behaviour of the
  network: every call runs on the object the call before it left behind.
\<close>

fun run_calls :: "JsonPlaceholderApiClient \<Rightarrow> (transport \<times> call) list \<Rightarrow> JsonPlaceholderApiClient" where
  "run_calls this [] = this"
| "run_calls this ((axios, k) # ks) = run_calls (this_after (invoke this axios k)) ks"

text \<open>The two messages thrown by the checks that run before the network call.\<close>

definition failed_validation :: "invocation \<Rightarrow> bool" where
  "failed_validation r =
     (outcome r = Inl (Error ''Post ID must be positive'')
      \<or> outcome r = Inl (Error ''Title and body are required''))"

text \<open>The methods that check their argument before calling the executor.\<close>

fun validating :: "call \<Rightarrow> bool" where
  "validating (GetPost i) = True"
| "validating (CreatePost pd) = True"
| "validating k = False"

section \<open>The endpoint table of the specification\<close>

text \<open>
  The table of the client surface as the specification gives it: the verb and the
  path of every method, the path with its parameter interpolated.
\<close>

fun spec_endpoint_table :: "call \<Rightarrow> http_method \<times> string" where
  "spec_endpoint_table GetPosts = (GET, ''/posts'')"
| "spec_endpoint_table (GetPost i) = (GET, ''/posts/'' @ js_number_to_string i)"
| "spec_endpoint_table (GetPostComments i) = (GET, ''/posts/'' @ js_number_to_string i @ ''/comments'')"
| "spec_endpoint_table (CreatePost pd) = (POST, ''/posts'')"
| "spec_endpoint_table (UpdatePost i pd) = (PUT, ''/posts/'' @ js_number_to_string i)"
| "spec_endpoint_table (PatchPost i pd) = (PATCH, ''/posts/'' @ js_number_to_string i)"
| "spec_endpoint_table (DeletePost i) = (DELETE, ''/posts/'' @ js_number_to_string i)"
| "spec_endpoint_table (GetComments p) = (GET, ''/comments'')"
| "spec_endpoint_table (GetComment i) = (GET, ''/comments/'' @ js_number_to_string i)"
| "spec_endpoint_table GetAlbums = (GET, ''/albums'')"
| "spec_endpoint_table (GetAlbum i) = (GET, ''/albums/'' @ js_number_to_string i)"
| "spec_endpoint_table (GetAlbumPhotos i) = (GET, ''/albums/'' @ js_number_to_string i @ ''/photos'')"
| "spec_endpoint_table (GetPhotos p) = (GET, ''/photos'')"
| "spec_endpoint_table (GetPhoto i) = (GET, ''/photos/'' @ js_number_to_string i)"
| "spec_endpoint_table (GetTodos p) = (GET, ''/todos'')"
| "spec_endpoint_table (GetTodo i) = (GET, ''/todos/'' @ js_number_to_string i)"
| "spec_endpoint_table GetUsers = (GET, ''/users'')"
| "spec_endpoint_table (GetUser i) = (GET, ''/users/'' @ js_number_to_string i)"
| "spec_endpoint_table (GetUserPosts i) = (GET, ''/users/'' @ js_number_to_string i @ ''/posts'')"
| "spec_endpoint_table (GetUserTodos i) = (GET, ''/users/'' @ js_number_to_string i @ ''/todos'')"
| "spec_endpoint_table (GetUserAlbums i) = (GET, ''/users/'' @ js_number_to_string i @ ''/albums'')"

section \<open>Arguments of the executor\<close>

text \<open>
  \<open>makeRequest\<close> is private. Its call sites pass as body a request object
  (\<open>postData\<close>) or nothing, and as params the optional filter object of the caller or
  nothing. An argument that is not passed is undefined.
\<close>

fun object_or_undefined :: "js_value \<Rightarrow> bool" where
  "object_or_undefined Undefined = True"
| "object_or_undefined (Obj fs) = True"
| "object_or_undefined v = False"

text \<open>
  The arguments of a call as the signatures of the methods type them: the body of an
  update or of a patch is an object, a filter is an object or is left out.
\<close>

fun typed_arguments :: "call \<Rightarrow> bool" where
  "typed_arguments (UpdatePost i pd) = (object_or_undefined pd \<and> pd \<noteq> Undefined)"
| "typed_arguments (PatchPost i pd) = (object_or_undefined pd \<and> pd \<noteq> Undefined)"
| "typed_arguments (GetComments p) = object_or_undefined p"
| "typed_arguments (GetPhotos p) = object_or_undefined p"
| "typed_arguments (GetTodos p) = object_or_undefined p"
| "typed_arguments k = True"

section \<open>Typed fields of a create request\<close>

text \<open>
  \<^verbatim>\<open>CreatePostRequest\<close> declares \<open>title\<close> and \<open>body\<close> as strings. The tests also send
  objects where they are null or undefined, so a field of that type holds a string or
  is missing.
\<close>

fun string_or_missing :: "js_value \<Rightarrow> bool" where
  "string_or_missing Undefined = True"
| "string_or_missing Null = True"
| "string_or_missing (Str s) = True"
| "string_or_missing v = False"

fun empty_or_missing :: "js_value \<Rightarrow> bool" where
  "empty_or_missing Undefined = True"
| "empty_or_missing Null = True"
| "empty_or_missing (Str s) = (s = [])"
| "empty_or_missing v = False"

section \<open>Sample behaviours of the network\<close>

definition created_response :: AxiosResponse where
  "created_response =
     \<lparr>resp_data = Obj [(''id'', Num 101)], resp_status = 201, resp_statusText = ''Created'',
      resp_headers = [(''content-type'', ''application/json'')]\<rparr>"

definition not_found_response :: AxiosResponse where
  "not_found_response =
     \<lparr>resp_data = Obj [], resp_status = 404, resp_statusText = ''Not Found'', resp_headers = []\<rparr>"

definition answers :: "AxiosResponse \<Rightarrow> transport" where
  "answers r config = Inr r"

definition rejects :: "AxiosError \<Rightarrow> transport" where
  "rejects e config = Inl e"

definition status_error :: AxiosError where
  "status_error =
     \<lparr>err_name = ''AxiosError'', err_message = ''Request failed with status code 404'',
      err_code = Some ''ERR_BAD_REQUEST'', err_response = Some not_found_response\<rparr>"

definition timeout_error :: AxiosError where
  "timeout_error =
     \<lparr>err_name = ''AxiosError'', err_message = ''timeout of 5000ms exceeded'',
      err_code = Some ''ECONNABORTED'', err_response = None\<rparr>"

definition network_error :: AxiosError where
  "network_error =
     \<lparr>err_name = ''AxiosError'', err_message = ''Network Error'',
      err_code = Some ''ERR_NETWORK'', err_response = None\<rparr>"

definition aborted_with_response :: AxiosError where
  "aborted_with_response =
     \<lparr>err_name = ''AxiosError'', err_message = ''Request aborted'',
      err_code = Some ''ECONNABORTED'', err_response = Some not_found_response\<rparr>"

section \<open>Facts about the executor\<close>

lemmas method_defs = getPosts_def getPost_def getPostComments_def createPost_def updatePost_def
  patchPost_def deletePost_def getComments_def getComment_def getAlbums_def getAlbum_def
  getAlbumPhotos_def getPhotos_def getPhoto_def getTodos_def getTodo_def getUsers_def getUser_def
  getUserPosts_def getUserTodos_def getUserAlbums_def

lemmas number_simps = js_number_to_string_def nat_digits.simps digit_char_def

lemmas sample_defs = created_response_def not_found_response_def answers_def rejects_def
  status_error_def timeout_error_def network_error_def aborted_with_response_def

lemma makeRequest_issued:
  "issued (makeRequest this axios m ep d p) = [request_config this m ep d p]"
  by (simp add: makeRequest_def Let_def split: sum.split)

lemma makeRequest_this: "this_after (makeRequest this axios m ep d p) = this"
  by (simp add: makeRequest_def Let_def split: sum.split)

lemma makeRequest_Inl:
  "axios (request_config this m ep d p) = Inl e \<Longrightarrow>
   outcome (makeRequest this axios m ep d p) = Inl (catch_error this e)"
  by (simp add: makeRequest_def Let_def)

lemma makeRequest_Inr:
  "axios (request_config this m ep d p) = Inr r \<Longrightarrow>
   outcome (makeRequest this axios m ep d p) =
     Inr \<lparr>data = resp_data r, status = resp_status r, statusText = resp_statusText r\<rparr>"
  by (simp add: makeRequest_def Let_def)

lemma makeRequest_success:
  "issued (makeRequest this axios m ep d p) = [config] \<Longrightarrow> axios config = Inr r \<Longrightarrow>
   outcome (makeRequest this axios m ep d p) =
     Inr \<lparr>data = resp_data r, status = resp_status r, statusText = resp_statusText r\<rparr>"
  by (auto simp: makeRequest_issued makeRequest_Inr)

text \<open>
  The three messages of the catch block begin with \<open>A\<close>, \<open>R\<close> and \<open>U\<close>; the two
  messages of the checks begin with \<open>P\<close> and \<open>T\<close>. So what the executor throws is
  never taken for a failed check.
\<close>

lemma catch_error_not_validation:
  "catch_error this e \<noteq> Error ''Post ID must be positive''"
  "catch_error this e \<noteq> Error ''Title and body are required''"
  by (simp_all add: catch_error_def split: option.split)

lemma makeRequest_not_validation: "\<not> failed_validation (makeRequest this axios m ep d p)"
  by (simp add: failed_validation_def makeRequest_def Let_def catch_error_not_validation
      split: sum.split)

lemma failed_validation_thrown:
  "failed_validation \<lparr>outcome = Inl (Error msg), issued = configs, this_after = this\<rparr> =
     (msg = ''Post ID must be positive'' \<or> msg = ''Title and body are required'')"
  by (simp add: failed_validation_def)

lemma invoke_this: "this_after (invoke this axios k) = this"
  by (cases k) (simp_all add: method_defs makeRequest_this)

lemma run_calls_this: "run_calls this history = this"
  by (induction history arbitrary: this) (auto simp: invoke_this)

lemma invoke_is_makeRequest:
  "\<not> validating k \<Longrightarrow>
   \<exists>d p. invoke this axios k =
           makeRequest this axios (fst (spec_endpoint_table k)) (snd (spec_endpoint_table k)) d p"
  by (cases k) (simp_all add: method_defs, blast+)

text \<open>
  The executor attaches an argument when it is truthy.
\<close>

lemma request_config_truthy:
  "map cfg_data (issued (makeRequest this axios m ep d p)) = [if truthy d then Some d else None]"
  "map cfg_params (issued (makeRequest this axios m ep d p)) = [if truthy p then Some p else None]"
  by (simp_all add: makeRequest_issued request_config_def)

text \<open>
  Every call of the executor that the methods make on typed arguments passes an object
  or nothing as body and an object or nothing as params.
\<close>

lemma call_sites_object_or_undefined:
  assumes "typed_arguments k" and "issued (invoke this axios k) \<noteq> []"
  shows "\<exists>m ep d p. invoke this axios k = makeRequest this axios m ep d p
           \<and> object_or_undefined d \<and> object_or_undefined p"
proof -
  have ex: "\<And>m ep d p. object_or_undefined d \<Longrightarrow> object_or_undefined p \<Longrightarrow>
      \<exists>m' ep' d' p'. makeRequest this axios m ep d p = makeRequest this axios m' ep' d' p'
           \<and> object_or_undefined d' \<and> object_or_undefined p'"
    by blast
  show ?thesis
    using assms by (cases k) (simp_all add: method_defs ex split: if_splits)
qed

section \<open>The claims\<close>

subsection \<open>C1: failures of the executor\<close>

text \<open>
  C1. Whenever axios rejects, the executor rejects too, with an error of one of three
  kinds chosen by the rejection: with a response, the message holds the message of the
  rejection and the status code; without a response and with the code of a timeout, it
  states the configured timeout in milliseconds; otherwise it wraps the rejection as a
  string. The promise never resolves with a value in that case, and axios was called
  once: nothing is retried. The kind is fixed for every status and every timeout; the
  digits of the status and of the timeout are stated for safe integers.
\<close>

theorem makeRequest_failure_surfaced:
  assumes "axios (request_config this m ep d p) = Inl e"
  shows "(\<forall>r. err_response e = Some r \<longrightarrow>
            (\<exists>s. outcome (makeRequest this axios m ep d p) =
                   Inl (Error (''API request failed: '' @ err_message e @ '' - Status: '' @ s)))
            \<and> (safe_integer (resp_status r) \<longrightarrow>
                 outcome (makeRequest this axios m ep d p) =
                   Inl (Error (''API request failed: '' @ err_message e @ '' - Status: ''
                               @ js_number_to_string (resp_status r)))))
       \<and> (err_response e = None \<and> err_code e = Some ''ECONNABORTED'' \<longrightarrow>
            (\<exists>s. outcome (makeRequest this axios m ep d p) =
                   Inl (Error (''Request timed out after '' @ s @ ''ms'')))
            \<and> (safe_integer (timeout this) \<longrightarrow>
                 outcome (makeRequest this axios m ep d p) =
                   Inl (Error (''Request timed out after '' @ js_number_to_string (timeout this)
                               @ ''ms''))))
       \<and> (err_response e = None \<and> err_code e \<noteq> Some ''ECONNABORTED'' \<longrightarrow>
            outcome (makeRequest this axios m ep d p) =
              Inl (Error (''Unexpected error: '' @ error_to_string e)))
       \<and> (\<exists>msg. outcome (makeRequest this axios m ep d p) = Inl (Error msg))
       \<and> issued (makeRequest this axios m ep d p) = [request_config this m ep d p]"
  using assms by (simp add: makeRequest_def Let_def catch_error_def split: option.split)

text \<open>
  The three kinds, on a client with a timeout of 5000 ms, and the timeout message of a
  client with the largest safe timeout.
\<close>

theorem makeRequest_failure_surfaced_witness:
  "outcome (makeRequest (new_client None (Some 5000)) (rejects status_error)
              GET ''/albums/999'' Undefined Undefined)
     = Inl (Error ''API request failed: Request failed with status code 404 - Status: 404'')
   \<and> outcome (makeRequest (new_client None (Some 5000)) (rejects timeout_error)
              GET ''/albums'' Undefined Undefined)
     = Inl (Error ''Request timed out after 5000ms'')
   \<and> outcome (makeRequest (new_client None (Some 9007199254740991)) (rejects timeout_error)
              GET ''/albums'' Undefined Undefined)
     = Inl (Error ''Request timed out after 9007199254740991ms'')
   \<and> outcome (makeRequest (new_client None (Some 5000)) (rejects network_error)
              GET ''/albums'' Undefined Undefined)
     = Inl (Error ''Unexpected error: AxiosError: Network Error'')"
  using makeRequest_failure_surfaced [of "rejects status_error" "new_client None (Some 5000)"
          GET "''/albums/999''" Undefined Undefined status_error]
        makeRequest_failure_surfaced [of "rejects timeout_error" "new_client None (Some 5000)"
          GET "''/albums''" Undefined Undefined timeout_error]
        makeRequest_failure_surfaced [of "rejects timeout_error"
          "new_client None (Some 9007199254740991)"
          GET "''/albums''" Undefined Undefined timeout_error]
        makeRequest_failure_surfaced [of "rejects network_error" "new_client None (Some 5000)"
          GET "''/albums''" Undefined Undefined network_error]
  by (simp add: sample_defs new_client_def error_to_string_def safe_integer_def number_simps)

subsection \<open>C2: body and query parameters of the configuration\<close>

text \<open>
  C2. In every invocation of the executor the program makes, with a body that is a
  request object or not passed and params that are a filter object or not passed, the
  configuration handed to axios has the body exactly when a body was passed, and the
  query parameters exactly when params were passed; what was not passed is no field of
  the configuration at all.
\<close>

theorem makeRequest_attaches_iff_provided:
  assumes "object_or_undefined d" and "object_or_undefined p"
  shows "map cfg_data (issued (makeRequest this axios m ep d p)) =
           [if d = Undefined then None else Some d]
       \<and> map cfg_params (issued (makeRequest this axios m ep d p)) =
           [if p = Undefined then None else Some p]"
proof -
  have "truthy d = (d \<noteq> Undefined)"
    using assms(1) by (cases d) simp_all
  moreover have "truthy p = (p \<noteq> Undefined)"
    using assms(2) by (cases p) simp_all
  ultimately show ?thesis
    by (simp add: request_config_truthy)
qed

text \<open>
  An update with a body and no params, a filtered list with params and no body, an empty
  patch object, and a list with neither.
\<close>

theorem makeRequest_attaches_iff_provided_witness:
  "map cfg_data (issued (makeRequest (new_client None None) (answers created_response)
                   PUT ''/posts/1'' (Obj [(''title'', Str ''t'')]) Undefined))
     = [Some (Obj [(''title'', Str ''t'')])]
   \<and> map cfg_params (issued (makeRequest (new_client None None) (answers created_response)
                   PUT ''/posts/1'' (Obj [(''title'', Str ''t'')]) Undefined)) = [None]
   \<and> map cfg_data (issued (makeRequest (new_client None None) (answers created_response)
                   GET ''/todos'' Undefined (Obj [(''userId'', Num 1)]))) = [None]
   \<and> map cfg_params (issued (makeRequest (new_client None None) (answers created_response)
                   GET ''/todos'' Undefined (Obj [(''userId'', Num 1)])))
     = [Some (Obj [(''userId'', Num 1)])]
   \<and> map cfg_data (issued (makeRequest (new_client None None) (answers created_response)
                   PATCH ''/posts/4'' (Obj []) Undefined)) = [Some (Obj [])]
   \<and> map cfg_data (issued (makeRequest (new_client None None) (answers created_response)
                   GET ''/posts'' Undefined Undefined)) = [None]
   \<and> map cfg_params (issued (makeRequest (new_client None None) (answers created_response)
                   GET ''/posts'' Undefined Undefined)) = [None]"
  using makeRequest_attaches_iff_provided [of "Obj [(''title'', Str ''t'')]" Undefined
          "new_client None None" "answers created_response" PUT "''/posts/1''"]
        makeRequest_attaches_iff_provided [of Undefined "Obj [(''userId'', Num 1)]"
          "new_client None None" "answers created_response" GET "''/todos''"]
        makeRequest_attaches_iff_provided [of "Obj []" Undefined
          "new_client None None" "answers created_response" PATCH "''/posts/4''"]
        makeRequest_attaches_iff_provided [of Undefined Undefined
          "new_client None None" "answers created_response" GET "''/posts''"]
  by simp

subsection \<open>C3: getPost checks its id\<close>

text \<open>
  C3. For an id that is zero or negative, getPost throws its own error and axios is not
  called. For a positive id no check fails and one request, a GET, is issued; for a
  positive safe integer it goes to \<open>/posts/{id}\<close> under the base URL, without body and
  without query parameters.
\<close>

theorem getPost_validation:
  "(i \<le> 0 \<longrightarrow>
      outcome (getPost this axios i) = Inl (Error ''Post ID must be positive'')
      \<and> issued (getPost this axios i) = [])
   \<and> (0 < i \<longrightarrow>
      \<not> failed_validation (getPost this axios i)
      \<and> map cfg_method (issued (getPost this axios i)) = [GET])
   \<and> (0 < i \<and> safe_integer i \<longrightarrow>
      issued (getPost this axios i) =
          [\<lparr>cfg_method = GET, cfg_url = baseUrl this @ ''/posts/'' @ js_number_to_string i,
            cfg_timeout = timeout this, cfg_data = None, cfg_params = None\<rparr>])"
  by (simp add: getPost_def makeRequest_not_validation makeRequest_issued request_config_def)

text \<open>The ids of the tests: 0, -1, an id in range, 999 and the largest safe integer.\<close>

theorem getPost_validation_witness:
  "outcome (getPost (new_client None None) (answers created_response) 0)
      = Inl (Error ''Post ID must be positive'')
   \<and> issued (getPost (new_client None None) (answers created_response) 0) = []
   \<and> issued (getPost (new_client None None) (answers created_response) (- 1)) = []
   \<and> \<not> failed_validation (getPost (new_client None None) (answers created_response) 12)
   \<and> issued (getPost (new_client None None) (answers created_response) 12) =
       [\<lparr>cfg_method = GET, cfg_url = ''https://jsonplaceholder.typicode.com/posts/12'',
         cfg_timeout = 10000, cfg_data = None, cfg_params = None\<rparr>]
   \<and> issued (getPost (new_client None None) (rejects status_error) 999) =
       [\<lparr>cfg_method = GET, cfg_url = ''https://jsonplaceholder.typicode.com/posts/999'',
         cfg_timeout = 10000, cfg_data = None, cfg_params = None\<rparr>]
   \<and> issued (getPost (new_client None None) (rejects status_error) 9007199254740991) =
       [\<lparr>cfg_method = GET,
         cfg_url = ''https://jsonplaceholder.typicode.com/posts/9007199254740991'',
         cfg_timeout = 10000, cfg_data = None, cfg_params = None\<rparr>]"
  using getPost_validation [of 0 "new_client None None" "answers created_response"]
        getPost_validation [of "- 1" "new_client None None" "answers created_response"]
        getPost_validation [of 12 "new_client None None" "answers created_response"]
        getPost_validation [of 999 "new_client None None" "rejects status_error"]
        getPost_validation [of 9007199254740991 "new_client None None" "rejects status_error"]
  by (simp add: new_client_def safe_integer_def number_simps)

subsection \<open>C4: createPost checks title and body\<close>

text \<open>
  C4. On a request whose title and body are strings or missing, as their type says,
  createPost throws its own error, without calling axios, exactly when the title or
  the body is empty or missing. Otherwise no check fails and one POST request goes to
  \<open>/posts\<close> under the base URL, with the request object as its body.
\<close>

theorem createPost_validation:
  assumes "string_or_missing (js_get postData ''title'')"
      and "string_or_missing (js_get postData ''body'')"
  shows "(empty_or_missing (js_get postData ''title'')
          \<or> empty_or_missing (js_get postData ''body'') \<longrightarrow>
            outcome (createPost this axios postData) = Inl (Error ''Title and body are required'')
            \<and> issued (createPost this axios postData) = [])
       \<and> (\<not> (empty_or_missing (js_get postData ''title'')
              \<or> empty_or_missing (js_get postData ''body'')) \<longrightarrow>
            \<not> failed_validation (createPost this axios postData)
            \<and> issued (createPost this axios postData) =
                [\<lparr>cfg_method = POST, cfg_url = baseUrl this @ ''/posts'',
                  cfg_timeout = timeout this,
                  cfg_data = Some (Obj postData), cfg_params = None\<rparr>])"
proof -
  have t: "empty_or_missing (js_get postData ''title'') = (\<not> truthy (js_get postData ''title''))"
    using assms(1) by (cases "js_get postData ''title''") simp_all
  have b: "empty_or_missing (js_get postData ''body'') = (\<not> truthy (js_get postData ''body''))"
    using assms(2) by (cases "js_get postData ''body''") simp_all
  show ?thesis
    unfolding t b
    by (simp add: createPost_def makeRequest_not_validation makeRequest_issued request_config_def)
qed

text \<open>The requests of the tests: empty strings, a null title with no body, a full request.\<close>

theorem createPost_validation_witness:
  "outcome (createPost (new_client None None) (answers created_response)
              [(''title'', Str []), (''body'', Str []), (''userId'', Num 1)])
     = Inl (Error ''Title and body are required'')
   \<and> issued (createPost (new_client None None) (answers created_response)
              [(''title'', Str []), (''body'', Str []), (''userId'', Num 1)]) = []
   \<and> issued (createPost (new_client None None) (answers created_response)
              [(''title'', Null), (''userId'', Str ''invalid'')]) = []
   \<and> \<not> failed_validation (createPost (new_client None None) (answers created_response)
              [(''title'', Str ''T''), (''body'', Str ''B''), (''userId'', Num 1)])
   \<and> issued (createPost (new_client None None) (answers created_response)
              [(''title'', Str ''T''), (''body'', Str ''B''), (''userId'', Num 1)])
     = [\<lparr>cfg_method = POST, cfg_url = ''https://jsonplaceholder.typicode.com/posts'',
         cfg_timeout = 10000,
         cfg_data = Some (Obj [(''title'', Str ''T''), (''body'', Str ''B''), (''userId'', Num 1)]),
         cfg_params = None\<rparr>]"
  using createPost_validation [of "[(''title'', Str []), (''body'', Str []), (''userId'', Num 1)]"
          "new_client None None" "answers created_response"]
        createPost_validation [of "[(''title'', Null), (''userId'', Str ''invalid'')]"
          "new_client None None" "answers created_response"]
        createPost_validation [of "[(''title'', Str ''T''), (''body'', Str ''B''), (''userId'', Num 1)]"
          "new_client None None" "answers created_response"]
  by (simp add: js_get_def new_client_def)

subsection \<open>C5: the envelope\<close>

text \<open>
  C5. When a call of any method hands a configuration to axios and axios answers it
  with a response, the call resolves with the envelope of exactly three fields: the
  data, the status and the status text of that response, as they are.
\<close>

theorem envelope_of_response:
  assumes "issued (invoke this axios k) = [config]" and "axios config = Inr r"
  shows "outcome (invoke this axios k) =
           Inr \<lparr>data = resp_data r, status = resp_status r, statusText = resp_statusText r\<rparr>"
  using assms by (cases k) (auto simp: method_defs makeRequest_success split: if_splits)

theorem envelope_of_response_witness:
  "outcome (invoke (new_client None None) (answers created_response)
              (CreatePost [(''title'', Str ''T''), (''body'', Str ''B''), (''userId'', Num 1)]))
     = Inr \<lparr>data = Obj [(''id'', Num 101)], status = 201, statusText = ''Created''\<rparr>"
proof -
  let ?k = "CreatePost [(''title'', Str ''T''), (''body'', Str ''B''), (''userId'', Num 1)]"
  let ?c = "new_client None None"
  let ?cfg = "request_config ?c POST ''/posts''
                (Obj [(''title'', Str ''T''), (''body'', Str ''B''), (''userId'', Num 1)]) Undefined"
  have a: "issued (invoke ?c (answers created_response) ?k) = [?cfg]"
    by (simp add: createPost_def js_get_def makeRequest_issued)
  have b: "answers created_response ?cfg = Inr created_response"
    by (simp add: answers_def)
  show ?thesis
    using envelope_of_response [of ?c "answers created_response" ?k ?cfg created_response, OF a b]
    by (simp add: created_response_def)
qed

subsection \<open>C6: verb and URL of every method\<close>

text \<open>
  C6 as it is stated: every method issues exactly one request. getPost with the id 0
  throws before the executor is reached and issues none.
\<close>

theorem getPost_rejected_issues_nothing:
  "issued (invoke (new_client None None) (answers created_response) (GetPost 0)) = []
   \<and> length (issued (invoke (new_client None None) (answers created_response) (GetPost 0))) \<noteq> 1"
  by (simp add: getPost_def)

text \<open>
  C6, amended: a call that fails the check of getPost or of createPost issues no
  request; every other call of every method issues exactly one request, with the verb
  of the endpoint table and, the id being a safe integer, with the base URL followed
  by the path of the table.
\<close>

theorem invoke_follows_endpoint_table:
  "map cfg_method (issued (invoke this axios k)) =
     (if failed_validation (invoke this axios k) then [] else [fst (spec_endpoint_table k)])
   \<and> (safe_id k \<longrightarrow>
        map (\<lambda>config. (cfg_method config, cfg_url config)) (issued (invoke this axios k)) =
          (if failed_validation (invoke this axios k) then []
           else [(fst (spec_endpoint_table k), baseUrl this @ snd (spec_endpoint_table k))]))"
  by (cases k)
     (simp_all add: method_defs makeRequest_issued makeRequest_not_validation request_config_def
        failed_validation_thrown)

text \<open>
  The methods the claim names, a negative id, the largest safe id and a rejected call.
\<close>

theorem invoke_follows_endpoint_table_witness:
  "map (\<lambda>config. (cfg_method config, cfg_url config))
     (issued (invoke (new_client None None) (answers created_response) (UpdatePost 7 (Obj []))))
     = [(PUT, ''https://jsonplaceholder.typicode.com/posts/7'')]
   \<and> map (\<lambda>config. (cfg_method config, cfg_url config))
     (issued (invoke (new_client None None) (answers created_response) (PatchPost 7 (Obj []))))
     = [(PATCH, ''https://jsonplaceholder.typicode.com/posts/7'')]
   \<and> map (\<lambda>config. (cfg_method config, cfg_url config))
     (issued (invoke (new_client None None) (answers created_response) (DeletePost 7)))
     = [(DELETE, ''https://jsonplaceholder.typicode.com/posts/7'')]
   \<and> map (\<lambda>config. (cfg_method config, cfg_url config))
     (issued (invoke (new_client None None) (answers created_response) (GetUserTodos 3)))
     = [(GET, ''https://jsonplaceholder.typicode.com/users/3/todos'')]
   \<and> map (\<lambda>config. (cfg_method config, cfg_url config))
     (issued (invoke (new_client None None) (rejects status_error) (GetUser (- 1))))
     = [(GET, ''https://jsonplaceholder.typicode.com/users/-1'')]
   \<and> map (\<lambda>config. (cfg_method config, cfg_url config))
     (issued (invoke (new_client None None) (rejects status_error)
                (GetAlbumPhotos 9007199254740991)))
     = [(GET, ''https://jsonplaceholder.typicode.com/albums/9007199254740991/photos'')]
   \<and> map (\<lambda>config. (cfg_method config, cfg_url config))
     (issued (invoke (new_client None None) (answers created_response) (GetPost (- 2)))) = []"
proof -
  let ?c = "new_client None None"
  let ?ax = "answers created_response"
  let ?no = "rejects status_error"
  have nv: "\<not> failed_validation (invoke ?c ?ax (UpdatePost 7 (Obj [])))"
           "\<not> failed_validation (invoke ?c ?ax (PatchPost 7 (Obj [])))"
           "\<not> failed_validation (invoke ?c ?ax (DeletePost 7))"
           "\<not> failed_validation (invoke ?c ?ax (GetUserTodos 3))"
           "\<not> failed_validation (invoke ?c ?no (GetUser (- 1)))"
           "\<not> failed_validation (invoke ?c ?no (GetAlbumPhotos 9007199254740991))"
    by (simp_all add: method_defs makeRequest_not_validation)
  have fv: "failed_validation (invoke ?c ?ax (GetPost (- 2)))"
    by (simp add: getPost_def failed_validation_thrown)
  show ?thesis
    using invoke_follows_endpoint_table [of ?c ?ax "UpdatePost 7 (Obj [])"]
          invoke_follows_endpoint_table [of ?c ?ax "PatchPost 7 (Obj [])"]
          invoke_follows_endpoint_table [of ?c ?ax "DeletePost 7"]
          invoke_follows_endpoint_table [of ?c ?ax "GetUserTodos 3"]
          invoke_follows_endpoint_table [of ?c ?no "GetUser (- 1)"]
          invoke_follows_endpoint_table [of ?c ?no "GetAlbumPhotos 9007199254740991"]
          invoke_follows_endpoint_table [of ?c ?ax "GetPost (- 2)"]
          nv fv
    by (simp add: new_client_def safe_integer_def number_simps)
qed

subsection \<open>C7: the methods without a check\<close>

text \<open>
  C7. A call of any method other than getPost and createPost, whatever its arguments,
  is a call of the executor and nothing more: no check fails and one request is issued.
\<close>

theorem unchecked_methods_reach_network:
  assumes "\<not> validating k"
  shows "\<not> failed_validation (invoke this axios k)
       \<and> length (issued (invoke this axios k)) = 1
       \<and> (\<exists>d p. invoke this axios k =
                  makeRequest this axios (fst (spec_endpoint_table k)) (snd (spec_endpoint_table k)) d p)"
proof -
  obtain d p where e: "invoke this axios k =
      makeRequest this axios (fst (spec_endpoint_table k)) (snd (spec_endpoint_table k)) d p"
    using invoke_is_makeRequest [OF assms] by blast
  show ?thesis
    unfolding e by (auto simp: makeRequest_not_validation makeRequest_issued)
qed

text \<open>The ids of the robustness tests, and a filter that matches nothing.\<close>

theorem unchecked_methods_reach_network_witness:
  "\<not> failed_validation (invoke (new_client None None) (rejects status_error) (GetAlbum (- 1)))
   \<and> length (issued (invoke (new_client None None) (rejects status_error) (GetAlbum (- 1)))) = 1
   \<and> \<not> failed_validation (invoke (new_client None None) (rejects status_error) (DeletePost 0))
   \<and> length (issued (invoke (new_client None None) (rejects status_error) (DeletePost 0))) = 1
   \<and> length (issued (invoke (new_client None None) (answers created_response)
                       (GetTodos (Obj [(''userId'', Num (- 999))])))) = 1"
  using unchecked_methods_reach_network [of "GetAlbum (- 1)" "new_client None None"
          "rejects status_error"]
        unchecked_methods_reach_network [of "DeletePost 0" "new_client None None"
          "rejects status_error"]
        unchecked_methods_reach_network [of "GetTodos (Obj [(''userId'', Num (- 999))])"
          "new_client None None" "answers created_response"]
  by simp

subsection \<open>C8: the client keeps its configuration\<close>

text \<open>
  C8. After a call of any method the client object is the one before the call. So after
  any sequence of calls, whatever the network did, base URL and timeout are those of
  the construction, and a call behaves as it does on the fresh client.
\<close>

theorem client_configuration_unchanged:
  "this_after (invoke this axios k) = this
   \<and> baseUrl (run_calls this history) = baseUrl this
   \<and> timeout (run_calls this history) = timeout this
   \<and> invoke (run_calls this history) axios k = invoke this axios k"
  by (simp add: invoke_this run_calls_this)

theorem client_configuration_unchanged_witness:
  "run_calls (new_client (Some ''http://localhost:3000'') (Some 5000))
     [(rejects timeout_error, GetPosts), (answers created_response, GetPost 0),
      (answers created_response, CreatePost [(''title'', Str ''T''), (''body'', Str ''B'')])]
   = \<lparr>baseUrl = ''http://localhost:3000'', timeout = 5000\<rparr>"
proof -
  let ?h = "[(rejects timeout_error, GetPosts), (answers created_response, GetPost 0),
      (answers created_response, CreatePost [(''title'', Str ''T''), (''body'', Str ''B'')])]"
  let ?c = "new_client (Some ''http://localhost:3000'') (Some 5000)"
  have "baseUrl (run_calls ?c ?h) = baseUrl ?c \<and> timeout (run_calls ?c ?h) = timeout ?c"
    using client_configuration_unchanged [of ?c "answers created_response" GetPosts ?h] by simp
  then show ?thesis
    by (cases "run_calls ?c ?h") (simp add: new_client_def)
qed

subsection \<open>C9: createPost does not look at userId\<close>

text \<open>
  C9. A request whose title and body are non-empty strings passes the check of
  createPost and is posted as it is, whatever its other properties are: userId may be
  zero, negative, of another type or missing.
\<close>

theorem createPost_ignores_userId:
  assumes "js_get postData ''title'' = Str t" and "t \<noteq> []"
      and "js_get postData ''body'' = Str b" and "b \<noteq> []"
  shows "\<not> failed_validation (createPost this axios postData)
       \<and> issued (createPost this axios postData) =
           [\<lparr>cfg_method = POST, cfg_url = baseUrl this @ ''/posts'', cfg_timeout = timeout this,
             cfg_data = Some (Obj postData), cfg_params = None\<rparr>]"
  using assms
  by (simp add: createPost_def makeRequest_not_validation makeRequest_issued request_config_def)

theorem createPost_ignores_userId_witness:
  "length (issued (createPost (new_client None None) (answers created_response)
             [(''title'', Str ''T''), (''body'', Str ''B''), (''userId'', Num 0)])) = 1
   \<and> length (issued (createPost (new_client None None) (answers created_response)
             [(''title'', Str ''T''), (''body'', Str ''B''), (''userId'', Num (- 4))])) = 1
   \<and> length (issued (createPost (new_client None None) (answers created_response)
             [(''title'', Str ''T''), (''body'', Str ''B'')])) = 1
   \<and> length (issued (createPost (new_client None None) (answers created_response)
             [(''title'', Str ''T''), (''body'', Str ''B''), (''userId'', Str ''invalid'')])) = 1"
  using createPost_ignores_userId
          [of "[(''title'', Str ''T''), (''body'', Str ''B''), (''userId'', Num 0)]"
              "''T''" "''B''" "new_client None None" "answers created_response"]
        createPost_ignores_userId
          [of "[(''title'', Str ''T''), (''body'', Str ''B''), (''userId'', Num (- 4))]"
              "''T''" "''B''" "new_client None None" "answers created_response"]
        createPost_ignores_userId
          [of "[(''title'', Str ''T''), (''body'', Str ''B'')]"
              "''T''" "''B''" "new_client None None" "answers created_response"]
        createPost_ignores_userId
          [of "[(''title'', Str ''T''), (''body'', Str ''B''), (''userId'', Str ''invalid'')]"
              "''T''" "''B''" "new_client None None" "answers created_response"]
  by (simp add: js_get_def)

subsection \<open>C10: a response comes before the timeout code\<close>

text \<open>
  C10. When the rejection of axios has both a response and the code ECONNABORTED, the
  executor throws the error with the status of the response, not the timeout error.
\<close>

theorem response_precedes_timeout_code:
  assumes "axios (request_config this m ep d p) = Inl e"
      and "err_response e = Some r" and "err_code e = Some ''ECONNABORTED''"
  shows "outcome (makeRequest this axios m ep d p) =
           Inl (Error (''API request failed: '' @ err_message e @ '' - Status: ''
                       @ js_number_to_string (resp_status r)))
       \<and> outcome (makeRequest this axios m ep d p) \<noteq>
           Inl (Error (''Request timed out after '' @ js_number_to_string (timeout this) @ ''ms''))"
  using assms by (simp add: makeRequest_Inl catch_error_def)

theorem response_precedes_timeout_code_witness:
  "outcome (makeRequest (new_client None None) (rejects aborted_with_response)
              GET ''/posts'' Undefined Undefined)
     = Inl (Error ''API request failed: Request aborted - Status: 404'')"
  using response_precedes_timeout_code [of "rejects aborted_with_response" "new_client None None"
          GET "''/posts''" Undefined Undefined aborted_with_response not_found_response]
  by (simp add: sample_defs number_simps)

end
